theory Spec2Isabelle
  imports Main
begin

section \<open>The documentation page of docat: \<open>web/src/pages/Docs.tsx\<close>\<close>

text \<open>
  The component \<open>Docs\<close> keeps the browser address, the embedded viewer and the list of
  published versions of a project consistent. Its React state (\<open>useState\<close>), its refs
  (\<open>useRef\<close>) and its memo (\<open>useMemo\<close>) are the fields of one record; every event
  handler and every effect is a function from that record to the updated record.
  JavaScript strings are modelled by \<open>string\<close>, the list of their UTF-8 bytes.
\<close>

subsection \<open>Data\<close>

text \<open>\<open>models/ProjectDetails\<close>: the component reads the fields \<open>name\<close> and \<open>tags\<close>.\<close>

record projectDetails =
  name :: string
  tags :: "string list"

text \<open>
  The module \<open>repositories/ProjectRepository\<close> is imported by the component and is taken as
  a parameter: the comparator handed to \<open>Array.sort\<close>, \<open>getLatestVersion\<close> and
  \<open>getProjectDocsURL\<close>. The result of the asynchronous \<open>getVersions\<close> is the argument of
  the continuation \<open>versionsFetched\<close> below.
\<close>

record projectRepository =
  compareVersions :: "projectDetails \<Rightarrow> projectDetails \<Rightarrow> int"
  getLatestVersion :: "projectDetails list \<Rightarrow> projectDetails"
  getProjectDocsURL :: "string \<Rightarrow> string \<Rightarrow> string \<Rightarrow> string \<Rightarrow> string"

text \<open>
  What the router hooks deliver at a render: \<open>useParams()\<close> (a missing parameter is
  \<open>undefined\<close>, here \<open>None\<close>), \<open>useLocation().hash\<close> and
  \<open>useSearchParams()[0].get('hide-ui')\<close> (\<open>null\<close> is \<open>None\<close>).
\<close>

record location =
  paramsProject :: "string option"
  paramsVersion :: "string option"
  paramsPage :: "string option"
  locationHash :: string
  searchHideUi :: "string option"

text \<open>The calls made on the message banner (\<open>useMessageBanner\<close>), in the order they are made.\<close>

datatype messageType = Warning

record message =
  content :: string
  messageKind :: messageType
  showMs :: "nat option"

datatype bannerCall = ClearMessages | ShowMessage message

text \<open>
  The state of the component. \<open>iFrameSrcDeps\<close> holds the dependency values of the last
  evaluation of the memo \<open>iFrameSrc\<close>, \<open>iFrameSrcComputations\<close> counts these evaluations,
  \<open>bannerDeps\<close> holds the dependency values of the last run of the banner effect,
  \<open>versionsId\<close> is the identity of the array held in \<open>versions\<close> (React compares
  dependencies with \<open>Object.is\<close>, and every \<open>setVersions\<close> here stores a new array),
  \<open>pushed\<close> lists the addresses given to \<open>window.history.pushState\<close> (oldest first)
  and \<open>bannerCalls\<close> lists the calls made on the message banner (oldest first).
\<close>

record docsState =
  versions :: "projectDetails list"
  versionsId :: nat
  loadingFailed :: bool
  project :: string
  page :: string
  hash :: string
  version :: string
  hideUi :: bool
  iframeUpdateTrigger :: nat
  iFrameSrc :: string
  iFrameSrcDeps :: "string \<times> nat"
  iFrameSrcComputations :: nat
  bannerDeps :: "string \<times> nat"
  pushed :: "string list"
  bannerCalls :: "bannerCall list"

datatype fetchError = FetchFailed

subsection \<open>JavaScript primitives\<close>

text \<open>\<open>s.split(c)\<close> for a one-character separator: never empty, \<open>''.split(c)\<close> is \<open>['']\<close>.\<close>

fun split :: "char \<Rightarrow> string \<Rightarrow> string list" where
  "split c [] = [[]]"
| "split c (x # xs) =
     (if x = c then [] # split c xs
      else (case split c xs of [] \<Rightarrow> [[x]] | h # t \<Rightarrow> (x # h) # t))"

text \<open>\<open>xs[i]\<close>: \<open>undefined\<close> out of range.\<close>

definition index :: "'a list \<Rightarrow> nat \<Rightarrow> 'a option" where
  "index xs i = (if i < length xs then Some (xs ! i) else None)"

text \<open>\<open>a ?? b\<close>\<close>

definition nullish :: "'a option \<Rightarrow> 'a \<Rightarrow> 'a" where
  "nullish a b = (case a of None \<Rightarrow> b | Some v \<Rightarrow> v)"

text \<open>
  \<open>Array.prototype.sort\<close> with a comparator is stable: an element goes before the first
  element of the sorted rest that it does not compare greater than.
\<close>

fun insertBy :: "('a \<Rightarrow> 'a \<Rightarrow> int) \<Rightarrow> 'a \<Rightarrow> 'a list \<Rightarrow> 'a list" where
  "insertBy cmp x [] = [x]"
| "insertBy cmp x (y # ys) = (if cmp x y \<le> 0 then x # y # ys else y # insertBy cmp x ys)"

definition sortBy :: "('a \<Rightarrow> 'a \<Rightarrow> int) \<Rightarrow> 'a list \<Rightarrow> 'a list" where
  "sortBy cmp xs = foldr (insertBy cmp) xs []"

subsection \<open>\<open>encodeURIComponent\<close>\<close>

text \<open>
  Letters, digits and \<open>- _ . ! ~ * ' ( )\<close> are kept; every other byte of the UTF-8
  encoding becomes \<open>%XX\<close> with upper-case hexadecimal digits.
\<close>

definition uriUnescaped :: "char \<Rightarrow> bool" where
  "uriUnescaped c =
     (let n = (of_char c :: nat) in
        (65 \<le> n \<and> n \<le> 90) \<or> (97 \<le> n \<and> n \<le> 122) \<or> (48 \<le> n \<and> n \<le> 57) \<or>
        n = 45 \<or> n = 95 \<or> n = 46 \<or> n = 33 \<or> n = 126 \<or> n = 42 \<or> n = 39 \<or> n = 40 \<or> n = 41)"

definition hexDigit :: "nat \<Rightarrow> char" where
  "hexDigit n = (if n < 10 then char_of (48 + n) else char_of (55 + n))"

definition percentEncode :: "char \<Rightarrow> string" where
  "percentEncode c =
     [CHR ''%'', hexDigit ((of_char c :: nat) div 16), hexDigit ((of_char c :: nat) mod 16)]"

fun encodeURIComponent :: "string \<Rightarrow> string" where
  "encodeURIComponent [] = []"
| "encodeURIComponent (c # cs) =
     (if uriUnescaped c then c # encodeURIComponent cs
      else percentEncode c @ encodeURIComponent cs)"

subsection \<open>The address\<close>

text \<open>Lines 84 to 86.\<close>

definition getUrl :: "string \<Rightarrow> string \<Rightarrow> string \<Rightarrow> string \<Rightarrow> bool \<Rightarrow> string" where
  "getUrl project' version' page' hash' hideUi' =
     ''#/'' @ project' @ ''/'' @ version' @ ''/'' @ encodeURIComponent page' @ hash' @
     (if hideUi' then ''?hide-ui=true'' else '''')"

text \<open>Lines 88 to 91: \<open>pushState\<close> is recorded in \<open>pushed\<close>.\<close>

definition updateUrl :: "string \<Rightarrow> bool \<Rightarrow> docsState \<Rightarrow> docsState" where
  "updateUrl newVersion hideUi' s =
     s\<lparr>pushed := pushed s @ [getUrl (project s) newVersion (page s) (hash s) hideUi']\<rparr>"

text \<open>The values read from the hooks, lines 20 to 25 and again lines 124 to 128.\<close>

definition urlProject :: "location \<Rightarrow> string" where
  "urlProject loc = nullish (paramsProject loc) ''''"

definition urlVersion :: "location \<Rightarrow> string" where
  "urlVersion loc = nullish (paramsVersion loc) ''latest''"

definition urlPage :: "location \<Rightarrow> string" where
  "urlPage loc = nullish (paramsPage loc) ''index.html''"

definition urlHash :: "location \<Rightarrow> string" where
  "urlHash loc = nullish (index (split CHR ''?'' (locationHash loc)) 0) ''''"

definition urlHideUi :: "location \<Rightarrow> bool" where
  "urlHideUi loc =
     (searchHideUi loc = Some ''true'' \<or>
      index (split CHR ''?'' (locationHash loc)) 1 = Some ''hide-ui=true'')"

subsection \<open>The router\<close>

text \<open>
  Modelled from the spec: \<open>decodeURIComponent\<close>, by which the router decodes a route
  parameter (section 4.3: the route parameters are already decoded). \<open>%XX\<close> with two
  hexadecimal digits of either case is one byte; a \<open>%\<close> that is not followed by two
  such digits is an error (\<open>None\<close>). The decoded bytes are not checked to be UTF-8.
\<close>

definition hexValue :: "char \<Rightarrow> nat option" where
  "hexValue c =
     (let n = (of_char c :: nat) in
        if 48 \<le> n \<and> n \<le> 57 then Some (n - 48)
        else if 65 \<le> n \<and> n \<le> 70 then Some (n - 55)
        else if 97 \<le> n \<and> n \<le> 102 then Some (n - 87)
        else None)"

text \<open>
  Modelled from the spec: \<open>decodeURIComponent\<close> itself, over the bytes of the segment.
\<close>

fun decodeURIComponent :: "string \<Rightarrow> string option" where
  "decodeURIComponent [] = Some []"
| "decodeURIComponent (c # cs) =
     (if c = CHR ''%'' then
        (case cs of
           a # b # rest \<Rightarrow>
             (case (hexValue a, hexValue b) of
                (Some x, Some y) \<Rightarrow>
                  map_option ((#) (char_of (16 * x + y))) (decodeURIComponent rest)
              | _ \<Rightarrow> None)
         | _ \<Rightarrow> None)
      else map_option ((#) c) (decodeURIComponent cs))"

text \<open>
  Modelled from the spec: the route parameters, which the application's route table and
  the router provide and the component only reads (sections 4.3 and 6: the path of the
  address is \<open>/<project>/<version>/<percent-encoded-page>\<close>, and the route parameters
  give project, version and page, already decoded). A segment that is absent or empty
  gives no parameter; a segment that cannot be decoded, or a path of another shape, gives
  no location.
\<close>

definition routeParam :: "string \<Rightarrow> string option option" where
  "routeParam segment =
     (if segment = [] then Some None
      else (case decodeURIComponent segment of None \<Rightarrow> None | Some s \<Rightarrow> Some (Some s)))"

text \<open>
  Modelled from the spec: the three route parameters \<open>project\<close>, \<open>version\<close> and
  \<open>page\<close> of a matched path, decoded together.
\<close>

definition routeParams ::
  "string \<Rightarrow> string \<Rightarrow> string \<Rightarrow> (string option \<times> string option \<times> string option) option" where
  "routeParams p v pg =
     (case (routeParam p, routeParam v, routeParam pg) of
        (Some a, Some b, Some c) \<Rightarrow> Some (a, b, c)
      | _ \<Rightarrow> None)"

text \<open>
  Modelled from the spec: the routes of the component, \<open>/<project>\<close>,
  \<open>/<project>/<version>\<close> and \<open>/<project>/<version>/<page>\<close>; the page is one
  segment of the path.
\<close>

definition matchRoute :: "string \<Rightarrow> (string option \<times> string option \<times> string option) option" where
  "matchRoute pathname =
     (case split CHR ''/'' pathname of
        [[], p] \<Rightarrow> routeParams p [] []
      | [[], p, v] \<Rightarrow> routeParams p v []
      | [[], p, v, pg] \<Rightarrow> routeParams p v pg
      | _ \<Rightarrow> None)"

text \<open>
  Modelled from the spec: the query parameters of the address (section 6: the flag may be
  supplied as a standard query parameter \<open>hide-ui=true\<close>). The query is split at
  \<open>&\<close>, each part at its first \<open>=\<close>, and the first value of the name is returned;
  names and values are taken as they are written.
\<close>

definition searchParam :: "string \<Rightarrow> string \<times> string" where
  "searchParam s = (takeWhile (\<lambda>c. c \<noteq> CHR ''='') s, drop 1 (dropWhile (\<lambda>c. c \<noteq> CHR ''='') s))"

text \<open>
  Modelled from the spec: \<open>searchParams.get(key)\<close> on the query of the address, the
  leading \<open>?\<close> dropped; \<open>null\<close> is \<open>None\<close>.
\<close>

definition searchParamsGet :: "string \<Rightarrow> string \<Rightarrow> string option" where
  "searchParamsGet key search =
     map_of (map searchParam (filter (\<lambda>s. s \<noteq> [])
       (split CHR ''&'' (if search \<noteq> [] \<and> hd search = CHR ''?'' then tl search else search)))) key"

text \<open>
  Modelled from the spec: the location that the router derives from the address (section
  6: \<open>#/<project>/<version>/<percent-encoded-page><fragment>[?hide-ui=true]\<close>). After
  the leading \<open>#\<close>, the text from the next \<open>#\<close> on is the fragment
  (\<open>location.hash\<close>); before it, the text from the first \<open>?\<close> on is the query and
  the rest is the path.
\<close>

definition routeLocation :: "string \<Rightarrow> location option" where
  "routeLocation address =
     (case address of
        [] \<Rightarrow> None
      | c # path \<Rightarrow>
          if c \<noteq> CHR ''#'' then None
          else
            let beforeHash = takeWhile (\<lambda>c. c \<noteq> CHR ''#'') path;
                hashPart = dropWhile (\<lambda>c. c \<noteq> CHR ''#'') path;
                pathname = takeWhile (\<lambda>c. c \<noteq> CHR ''?'') beforeHash;
                search = dropWhile (\<lambda>c. c \<noteq> CHR ''?'') beforeHash
            in (case matchRoute pathname of
                  None \<Rightarrow> None
                | Some (p, v, pg) \<Rightarrow>
                    Some \<lparr>paramsProject = p, paramsVersion = v, paramsPage = pg,
                          locationHash = hashPart,
                          searchHideUi = searchParamsGet ''hide-ui'' search\<rparr>))"

subsection \<open>Encoding and decoding a navigation tuple\<close>

text \<open>Project, version, page, hash and the hide-ui flag.\<close>

type_synonym navigation = "string \<times> string \<times> string \<times> string \<times> bool"

text \<open>Encoding is \<open>getUrl\<close>.\<close>

definition encode :: "navigation \<Rightarrow> string" where
  "encode t = (case t of (p, v, pg, h, hide) \<Rightarrow> getUrl p v pg h hide)"

text \<open>Lines 124 to 128: the five values that the component reads from the hooks.\<close>

definition extractNavigation :: "location \<Rightarrow> navigation" where
  "extractNavigation loc = (urlProject loc, urlVersion loc, urlPage loc, urlHash loc, urlHideUi loc)"

text \<open>Decoding is the router followed by the component's reading of the hooks.\<close>

definition decode :: "string \<Rightarrow> navigation option" where
  "decode address = map_option extractNavigation (routeLocation address)"

text \<open>
  A valid tuple: project and version are non-empty and are carried by the address as they
  are written (no \<open>/\<close>, \<open>#\<close>, \<open>?\<close> or \<open>%\<close>), the page is not empty, and the
  hash is empty or begins with \<open>#\<close>.
\<close>

definition routeSegment :: "string \<Rightarrow> bool" where
  "routeSegment s =
     (s \<noteq> [] \<and> (\<forall>c\<in>set s. c \<noteq> CHR ''/'' \<and> c \<noteq> CHR ''#'' \<and> c \<noteq> CHR ''?'' \<and> c \<noteq> CHR ''%''))"

definition fragment :: "string \<Rightarrow> bool" where
  "fragment h = (h = [] \<or> hd h = CHR ''#'')"

definition validNavigation :: "navigation \<Rightarrow> bool" where
  "validNavigation t =
     (case t of (p, v, pg, h, hide) \<Rightarrow> routeSegment p \<and> routeSegment v \<and> pg \<noteq> [] \<and> fragment h)"

text \<open>The characters that delimit the parts of an address.\<close>

definition delimiter :: "char \<Rightarrow> bool" where
  "delimiter c = (c = CHR ''/'' \<or> c = CHR ''#'' \<or> c = CHR ''?'')"

subsection \<open>Rendering\<close>

text \<open>
  Lines 33 to 35: \<open>useMemo\<close> evaluates its function again when \<open>version\<close> or
  \<open>iframeUpdateTrigger\<close> differs from the value of the last evaluation, reading the refs
  as they are then.
\<close>

definition iFrameSrcMemo :: "projectRepository \<Rightarrow> docsState \<Rightarrow> docsState" where
  "iFrameSrcMemo repo s =
     (if iFrameSrcDeps s = (version s, iframeUpdateTrigger s) then s
      else s\<lparr>iFrameSrc := getProjectDocsURL repo (project s) (version s) (page s) (hash s),
             iFrameSrcDeps := (version s, iframeUpdateTrigger s),
             iFrameSrcComputations := Suc (iFrameSrcComputations s)\<rparr>)"

text \<open>Lines 154 to 172, the body of the banner effect.\<close>

definition outdatedBanner :: "projectRepository \<Rightarrow> docsState \<Rightarrow> docsState" where
  "outdatedBanner repo s =
     (if length (versions s) = 0 then s
      else let latestVersion = name (getLatestVersion repo (versions s)) in
        if version s = latestVersion then s\<lparr>bannerCalls := bannerCalls s @ [ClearMessages]\<rparr>
        else s\<lparr>bannerCalls := bannerCalls s @
               [ShowMessage \<lparr>content = ''You are viewing an outdated version of the documentation.'',
                             messageKind = Warning, showMs = None\<rparr>]\<rparr>)"

text \<open>The effect runs after a render in which \<open>version\<close> or \<open>versions\<close> has changed.\<close>

definition outdatedBannerEffect :: "projectRepository \<Rightarrow> docsState \<Rightarrow> docsState" where
  "outdatedBannerEffect repo s =
     (if bannerDeps s = (version s, versionsId s) then s
      else outdatedBanner repo (s\<lparr>bannerDeps := (version s, versionsId s)\<rparr>))"

text \<open>A render after state has been set: the memo, then the effects whose dependencies changed.\<close>

definition render :: "projectRepository \<Rightarrow> docsState \<Rightarrow> docsState" where
  "render repo s = outdatedBannerEffect repo (iFrameSrcMemo repo s)"

text \<open>Lines 174 to 197: what the component returns.\<close>

datatype element = NotFound | LoadingPage | Document string bool

definition docsView :: "docsState \<Rightarrow> element" where
  "docsView s =
     (if loadingFailed s \<or> project s = '''' then NotFound
      else if length (versions s) = 0 then LoadingPage
      else Document (iFrameSrc s) (\<not> hideUi s))"

subsection \<open>Mounting\<close>

text \<open>
  Lines 17 to 35 at the first render. The memo is evaluated once; the banner effect runs
  once and returns at once, the version list being empty.
\<close>

definition mount :: "projectRepository \<Rightarrow> location \<Rightarrow> docsState" where
  "mount repo loc =
     \<lparr>versions = [], versionsId = 0, loadingFailed = False,
      project = urlProject loc, page = urlPage loc, hash = urlHash loc,
      version = urlVersion loc, hideUi = urlHideUi loc, iframeUpdateTrigger = 0,
      iFrameSrc = getProjectDocsURL repo (urlProject loc) (urlVersion loc) (urlPage loc) (urlHash loc),
      iFrameSrcDeps = (urlVersion loc, 0), iFrameSrcComputations = 1,
      bannerDeps = (urlVersion loc, 0), pushed = [], bannerCalls = []\<rparr>"

subsection \<open>Version resolution\<close>

text \<open>
  Lines 44 to 75, what runs once \<open>getVersions\<close> has settled. \<open>requested\<close> is the
  \<open>version\<close> of the render that started the effect (the closure's value); \<open>Inl\<close> is a
  rejected promise, caught at line 72.
\<close>

definition versionsFetched ::
  "projectRepository \<Rightarrow> string \<Rightarrow> fetchError + projectDetails list \<Rightarrow> docsState \<Rightarrow> docsState" where
  "versionsFetched repo requested fetched s =
     (case fetched of
        Inl e \<Rightarrow> s\<lparr>loadingFailed := True\<rparr>
      | Inr fetchedVersions \<Rightarrow>
          if length fetchedVersions = 0 then s\<lparr>loadingFailed := True\<rparr>
          else
            let allVersions = sortBy (compareVersions repo) fetchedVersions;
                s1 = s\<lparr>versions := allVersions, versionsId := Suc (versionsId s)\<rparr>;
                latestVersion = name (getLatestVersion repo allVersions)
            in if requested = ''latest'' then
                 (if latestVersion = ''latest'' then s1 else s1\<lparr>version := latestVersion\<rparr>)
               else
                 let versionsAndTags = concat (map (\<lambda>v. name v # tags v) allVersions)
                 in if requested \<in> set versionsAndTags then s1
                    else s1\<lparr>loadingFailed := True\<rparr>)"

text \<open>
  Lines 37 to 44: the effect runs once, after the first render (its dependency is the ref
  object \<open>project\<close>, which never changes). It does nothing for an empty project;
  otherwise it asks for the versions of the project and its closure keeps the \<open>version\<close>
  of that render.
\<close>

definition resolutionRequest :: "docsState \<Rightarrow> (string \<times> string) option" where
  "resolutionRequest s = (if project s = '''' then None else Some (project s, version s))"

subsection \<open>Event handlers\<close>

text \<open>Lines 93 to 100.\<close>

definition iFramePageChanged :: "string \<Rightarrow> string \<Rightarrow> docsState \<Rightarrow> docsState" where
  "iFramePageChanged urlPage' urlHash' s =
     (if urlPage' = page s then s
      else updateUrl (version s) (hideUi s) (s\<lparr>page := urlPage', hash := urlHash'\<rparr>))"

text \<open>Lines 102 to 108.\<close>

definition iFrameHashChanged :: "string \<Rightarrow> docsState \<Rightarrow> docsState" where
  "iFrameHashChanged newHash s =
     (if newHash = hash s then s
      else updateUrl (version s) (hideUi s) (s\<lparr>hash := newHash\<rparr>))"

text \<open>Lines 110 to 116.\<close>

definition onVersionChanged :: "string \<Rightarrow> docsState \<Rightarrow> docsState" where
  "onVersionChanged newVersion s =
     (if newVersion = version s then s
      else updateUrl newVersion (hideUi s) (s\<lparr>version := newVersion\<rparr>))"

text \<open>Lines 118 to 121.\<close>

definition onHideUi :: "docsState \<Rightarrow> docsState" where
  "onHideUi s = updateUrl (version s) True (s\<lparr>hideUi := True\<rparr>)"

text \<open>Lines 123 to 152, the effect that runs when the router's location changes.\<close>

definition locationChanged :: "location \<Rightarrow> docsState \<Rightarrow> docsState" where
  "locationChanged loc s =
     (let s1 = (if urlProject loc \<noteq> project s
                then s\<lparr>versions := [], versionsId := Suc (versionsId s), project := urlProject loc\<rparr>
                else s);
          s2 = (if urlVersion loc \<noteq> version s1 then s1\<lparr>version := urlVersion loc\<rparr> else s1);
          s3 = (if urlHideUi loc \<noteq> hideUi s2 then s2\<lparr>hideUi := urlHideUi loc\<rparr> else s2);
          s4 = (if urlPage loc \<noteq> page s3
                then s3\<lparr>page := urlPage loc, iframeUpdateTrigger := iframeUpdateTrigger s3 + 1\<rparr>
                else s3);
          s5 = (if urlHash loc \<noteq> hash s4
                then s4\<lparr>hash := urlHash loc, iframeUpdateTrigger := iframeUpdateTrigger s4 + 1\<rparr>
                else s4)
      in s5)"

subsection \<open>The state machine\<close>

datatype event =
    LocationChanged location
  | VersionsFetched string "fetchError + projectDetails list"
  | PageChanged string string
  | HashChanged string
  | VersionSelected string
  | HideUiRequested

text \<open>A handler runs, then React renders again.\<close>

fun step :: "projectRepository \<Rightarrow> event \<Rightarrow> docsState \<Rightarrow> docsState" where
  "step repo (LocationChanged loc) s = render repo (locationChanged loc s)"
| "step repo (VersionsFetched requested fetched) s = render repo (versionsFetched repo requested fetched s)"
| "step repo (PageChanged urlPage' urlHash') s = render repo (iFramePageChanged urlPage' urlHash' s)"
| "step repo (HashChanged newHash) s = render repo (iFrameHashChanged newHash s)"
| "step repo (VersionSelected newVersion) s = render repo (onVersionChanged newVersion s)"
| "step repo HideUiRequested s = render repo (onHideUi s)"

fun run :: "projectRepository \<Rightarrow> event list \<Rightarrow> docsState \<Rightarrow> docsState" where
  "run repo [] s = s"
| "run repo (e # es) s = run repo es (step repo e s)"

text \<open>After a render the memo and the banner effect are up to date.\<close>

definition rendered :: "docsState \<Rightarrow> bool" where
  "rendered s =
     (iFrameSrcDeps s = (version s, iframeUpdateTrigger s) \<and> bannerDeps s = (version s, versionsId s))"

subsection \<open>Concrete inputs\<close>

text \<open>
  A stand-in for \<open>ProjectRepository\<close>, a version list and locations, for evaluating the
  component at concrete inputs: names compare as byte strings, the latest version is the
  last of the sorted list (a record named \<open>latest\<close> for the empty list), and the address
  of a document is \<open>/doc/<project>/<version>/<page><hash>\<close>.
\<close>

fun compareStrings :: "string \<Rightarrow> string \<Rightarrow> int" where
  "compareStrings [] [] = 0"
| "compareStrings [] (y # ys) = -1"
| "compareStrings (x # xs) [] = 1"
| "compareStrings (x # xs) (y # ys) =
     (if (of_char x :: nat) < of_char y then -1
      else if (of_char y :: nat) < of_char x then 1
      else compareStrings xs ys)"

definition exampleRepository :: projectRepository where
  "exampleRepository =
     \<lparr>compareVersions = (\<lambda>a b. compareStrings (name a) (name b)),
      getLatestVersion = (\<lambda>vs. case vs of [] \<Rightarrow> \<lparr>name = ''latest'', tags = []\<rparr>
                                 | _ \<Rightarrow> last (sortBy (\<lambda>a b. compareStrings (name a) (name b)) vs)),
      getProjectDocsURL = (\<lambda>p v pg h. ''/doc/'' @ p @ ''/'' @ v @ ''/'' @ pg @ h)\<rparr>"

definition exampleVersions :: "projectDetails list" where
  "exampleVersions =
     [\<lparr>name = ''1.0.0'', tags = []\<rparr>, \<lparr>name = ''1.2.0'', tags = [''stable'']\<rparr>,
      \<lparr>name = ''1.1.0'', tags = []\<rparr>]"

definition exampleLocation :: location where
  "exampleLocation =
     \<lparr>paramsProject = Some ''docat'', paramsVersion = None, paramsPage = None,
      locationHash = '''', searchHideUi = None\<rparr>"

definition unknownVersionLocation :: location where
  "unknownVersionLocation =
     \<lparr>paramsProject = Some ''docat'', paramsVersion = Some ''9.9.9'', paramsPage = None,
      locationHash = '''', searchHideUi = None\<rparr>"

definition pinnedLocation :: location where
  "pinnedLocation =
     \<lparr>paramsProject = Some ''docat'', paramsVersion = Some ''1.2.0'', paramsPage = None,
      locationHash = '''', searchHideUi = None\<rparr>"

definition pageLocation :: location where
  "pageLocation =
     \<lparr>paramsProject = Some ''docat'', paramsVersion = Some ''1.2.0'',
      paramsPage = Some ''usage.html'', locationHash = '''', searchHideUi = None\<rparr>"

definition hiddenLocation :: location where
  "hiddenLocation =
     \<lparr>paramsProject = Some ''docat'', paramsVersion = Some ''1.0.0'',
      paramsPage = Some ''usage.html'', locationHash = ''#install?hide-ui=true'',
      searchHideUi = None\<rparr>"

text \<open>The page opened at version 1.2.0 once the three versions have been fetched.\<close>

definition exampleState :: docsState where
  "exampleState =
     step exampleRepository (VersionsFetched ''1.2.0'' (Inr exampleVersions))
       (mount exampleRepository pinnedLocation)"


text \<open>A version list whose latest version is named \<open>latest\<close>.\<close>

definition sentinelVersions :: "projectDetails list" where
  "sentinelVersions = [\<lparr>name = ''1.0.0'', tags = []\<rparr>, \<lparr>name = ''latest'', tags = []\<rparr>]"

subsection \<open>Kinds of events\<close>

text \<open>The events sent by the embedded viewer.\<close>

fun viewerEvent :: "event \<Rightarrow> bool" where
  "viewerEvent (PageChanged urlPage' urlHash') = True"
| "viewerEvent (HashChanged newHash) = True"
| "viewerEvent e = False"

text \<open>Every event but a change to an address that does not carry the hide-ui flag.\<close>

fun keepsHideUi :: "event \<Rightarrow> bool" where
  "keepsHideUi (LocationChanged loc) = urlHideUi loc"
| "keepsHideUi e = True"

section \<open>Properties\<close>

subsection \<open>Sorting keeps the elements\<close>

lemma set_insertBy: "set (insertBy cmp x ys) = insert x (set ys)"
  by (induction ys) auto

lemma set_sortBy: "set (sortBy cmp xs) = set xs"
  by (induction xs) (simp_all add: sortBy_def set_insertBy)

lemma sortBy_nonempty: "xs \<noteq> [] \<Longrightarrow> sortBy cmp xs \<noteq> []"
  using set_sortBy [of cmp xs] by (metis set_empty)

subsection \<open>The address codec\<close>

lemma of_char_hexDigit:
  "n < 16 \<Longrightarrow> (of_char (hexDigit n) :: nat) = (if n < 10 then 48 + n else 55 + n)"
  by (simp add: hexDigit_def)

lemma hexValue_hexDigit: "n < 16 \<Longrightarrow> hexValue (hexDigit n) = Some n"
  by (simp add: hexValue_def of_char_hexDigit Let_def)

lemma percent_not_unescaped: "uriUnescaped c \<Longrightarrow> c \<noteq> CHR ''%''"
  by (auto simp add: uriUnescaped_def Let_def)

lemma char_of_div_mod: "char_of (16 * ((of_char c :: nat) div 16) + of_char c mod 16) = c"
  by simp

lemma byte_high: "(of_char c :: nat) div 16 < 16"
proof -
  have "(of_char c :: nat) < 256" by simp
  then show ?thesis by arith
qed

lemma decode_percentEncode:
  "decodeURIComponent (percentEncode c @ rest) = map_option ((#) c) (decodeURIComponent rest)"
proof -
  have d: "(of_char c :: nat) div 16 < 16" by (rule byte_high)
  have m: "(of_char c :: nat) mod 16 < 16" by simp
  show ?thesis
    by (simp add: percentEncode_def hexValue_hexDigit [OF d] hexValue_hexDigit [OF m]
        char_of_div_mod)
qed

lemma decode_encodeURIComponent: "decodeURIComponent (encodeURIComponent s) = Some s"
proof (induction s)
  case Nil
  then show ?case by simp
next
  case (Cons c cs)
  show ?case
  proof (cases "uriUnescaped c")
    case True
    with Cons show ?thesis by (simp add: percent_not_unescaped)
  next
    case False
    with Cons show ?thesis by (simp add: decode_percentEncode del: decodeURIComponent.simps)
  qed
qed

lemma decode_plain: "CHR ''%'' \<notin> set s \<Longrightarrow> decodeURIComponent s = Some s"
  by (induction s) auto

lemma delimiter_of_char: "delimiter c \<longleftrightarrow> (of_char c :: nat) \<in> {47, 35, 63}"
proof -
  have "(c = CHR ''/'') = ((of_char c :: nat) = of_char CHR ''/'')"
    "(c = CHR ''#'') = ((of_char c :: nat) = of_char CHR ''#'')"
    "(c = CHR ''?'') = ((of_char c :: nat) = of_char CHR ''?'')"
    by (simp_all only: of_char_eq_iff)
  then show ?thesis by (simp add: delimiter_def)
qed

lemma percentEncode_no_delimiter: "x \<in> set (percentEncode c) \<Longrightarrow> \<not> delimiter x"
proof -
  have d: "(of_char c :: nat) div 16 < 16" by (rule byte_high)
  have m: "(of_char c :: nat) mod 16 < 16" by simp
  assume "x \<in> set (percentEncode c)"
  then consider "x = CHR ''%''" | "x = hexDigit ((of_char c :: nat) div 16)"
    | "x = hexDigit ((of_char c :: nat) mod 16)"
    by (auto simp add: percentEncode_def)
  then show ?thesis
  proof cases
    case 1
    then show ?thesis by (simp add: delimiter_def)
  next
    case 2
    then show ?thesis
      using of_char_hexDigit [OF d] by (auto simp add: delimiter_of_char split: if_splits)
  next
    case 3
    then show ?thesis
      using of_char_hexDigit [OF m] by (auto simp add: delimiter_of_char split: if_splits)
  qed
qed

lemma unescaped_no_delimiter: "uriUnescaped c \<Longrightarrow> \<not> delimiter c"
  by (auto simp add: uriUnescaped_def delimiter_of_char Let_def)

lemma encodeURIComponent_no_delimiter:
  "x \<in> set (encodeURIComponent s) \<Longrightarrow> \<not> delimiter x"
  by (induction s) (auto simp add: unescaped_no_delimiter percentEncode_no_delimiter split: if_splits)

lemma encodeURIComponent_nonempty: "s \<noteq> [] \<Longrightarrow> encodeURIComponent s \<noteq> []"
  by (cases s) (simp_all add: percentEncode_def)

lemma split_none: "c \<notin> set xs \<Longrightarrow> split c xs = [xs]"
  by (induction xs) auto

lemma split_first: "c \<notin> set xs \<Longrightarrow> split c (xs @ c # ys) = xs # split c ys"
  by (induction xs) auto

lemma routeParam_plain: "routeSegment s \<Longrightarrow> routeParam s = Some (Some s)"
proof -
  assume "routeSegment s"
  then have "s \<noteq> []" and "CHR ''%'' \<notin> set s"
    by (auto simp add: routeSegment_def)
  then show ?thesis
    by (simp add: routeParam_def decode_plain)
qed

lemma routeParam_encoded: "s \<noteq> [] \<Longrightarrow> routeParam (encodeURIComponent s) = Some (Some s)"
  by (simp add: routeParam_def decode_encodeURIComponent encodeURIComponent_nonempty)

lemma matchRoute_path:
  assumes "routeSegment p" and "routeSegment v" and "pg \<noteq> []"
  shows "matchRoute (''/'' @ p @ ''/'' @ v @ ''/'' @ encodeURIComponent pg) =
    Some (Some p, Some v, Some pg)"
proof -
  have np: "CHR ''/'' \<notin> set p" and nv: "CHR ''/'' \<notin> set v"
    using assms by (auto simp add: routeSegment_def)
  have ne: "CHR ''/'' \<notin> set (encodeURIComponent pg)"
    using encodeURIComponent_no_delimiter [of "CHR ''/''" pg] by (auto simp add: delimiter_def)
  have "split CHR ''/'' (''/'' @ p @ ''/'' @ v @ ''/'' @ encodeURIComponent pg) =
      [[], p, v, encodeURIComponent pg]"
    using split_first [OF np, of "v @ ''/'' @ encodeURIComponent pg"]
      split_first [OF nv, of "encodeURIComponent pg"] split_none [OF ne]
    by simp
  then show ?thesis
    using assms
    by (simp add: matchRoute_def routeParams_def routeParam_plain routeParam_encoded)
qed

lemma path_no_delimiter:
  assumes "routeSegment p" and "routeSegment v"
  shows "CHR ''#'' \<notin> set (''/'' @ p @ ''/'' @ v @ ''/'' @ encodeURIComponent pg)"
    and "CHR ''?'' \<notin> set (''/'' @ p @ ''/'' @ v @ ''/'' @ encodeURIComponent pg)"
  using assms encodeURIComponent_no_delimiter [of "CHR ''#''" pg]
    encodeURIComponent_no_delimiter [of "CHR ''?''" pg]
  by (auto simp add: routeSegment_def delimiter_def)

lemma searchParamsGet_flag:
  "searchParamsGet ''hide-ui'' ''?hide-ui=true'' = Some ''true''"
  "searchParamsGet ''hide-ui'' [] = None"
  by (simp_all add: searchParamsGet_def searchParam_def)

lemma routeLocation_fragment:
  assumes "routeSegment p" and "routeSegment v" and "pg \<noteq> []" and "h \<noteq> []" and "hd h = CHR ''#''"
  shows "routeLocation (''#'' @ (''/'' @ p @ ''/'' @ v @ ''/'' @ encodeURIComponent pg) @ h @ flag) =
    Some \<lparr>paramsProject = Some p, paramsVersion = Some v, paramsPage = Some pg,
          locationHash = h @ flag, searchHideUi = None\<rparr>"
proof -
  let ?path = "''/'' @ p @ ''/'' @ v @ ''/'' @ encodeURIComponent pg"
  from assms(4,5) obtain h' where h: "h = CHR ''#'' # h'" by (cases h) auto
  have a: "\<And>x. x \<in> set ?path \<Longrightarrow> x \<noteq> CHR ''#''" "\<And>x. x \<in> set ?path \<Longrightarrow> x \<noteq> CHR ''?''"
    using path_no_delimiter [OF assms(1,2), of pg] by blast+
  have "takeWhile (\<lambda>c. c \<noteq> CHR ''#'') (?path @ h @ flag) =
      ?path @ takeWhile (\<lambda>c. c \<noteq> CHR ''#'') (h @ flag)"
    by (rule takeWhile_append2) (rule a(1))
  then have t: "takeWhile (\<lambda>c. c \<noteq> CHR ''#'') (?path @ h @ flag) = ?path"
    by (simp only: h append_Cons takeWhile.simps) simp
  have "dropWhile (\<lambda>c. c \<noteq> CHR ''#'') (?path @ h @ flag) =
      dropWhile (\<lambda>c. c \<noteq> CHR ''#'') (h @ flag)"
    by (rule dropWhile_append2) (rule a(1))
  then have d: "dropWhile (\<lambda>c. c \<noteq> CHR ''#'') (?path @ h @ flag) = h @ flag"
    by (simp only: h append_Cons dropWhile.simps) simp
  have t2: "takeWhile (\<lambda>c. c \<noteq> CHR ''?'') ?path = ?path"
    using a(2) by (simp only: takeWhile_eq_all_conv) blast
  have d2: "dropWhile (\<lambda>c. c \<noteq> CHR ''?'') ?path = []"
    using a(2) by (simp only: dropWhile_eq_Nil_conv) blast
  have "routeLocation (CHR ''#'' # (?path @ h @ flag)) =
    Some \<lparr>paramsProject = Some p, paramsVersion = Some v, paramsPage = Some pg,
          locationHash = h @ flag, searchHideUi = None\<rparr>"
    unfolding routeLocation_def list.case Let_def t d t2 d2 matchRoute_path [OF assms(1-3)]
    by (simp add: searchParamsGet_flag)
  then show ?thesis by simp
qed

lemma routeLocation_search:
  assumes "routeSegment p" and "routeSegment v" and "pg \<noteq> []"
    and "flag = [] \<or> flag = ''?hide-ui=true''"
  shows "routeLocation (''#'' @ (''/'' @ p @ ''/'' @ v @ ''/'' @ encodeURIComponent pg) @ flag) =
    Some \<lparr>paramsProject = Some p, paramsVersion = Some v, paramsPage = Some pg,
          locationHash = [], searchHideUi = searchParamsGet ''hide-ui'' flag\<rparr>"
proof -
  let ?path = "''/'' @ p @ ''/'' @ v @ ''/'' @ encodeURIComponent pg"
  have a: "\<And>x. x \<in> set ?path \<Longrightarrow> x \<noteq> CHR ''#''" "\<And>x. x \<in> set ?path \<Longrightarrow> x \<noteq> CHR ''?''"
    using path_no_delimiter [OF assms(1,2), of pg] by blast+
  have "CHR ''#'' \<notin> set flag"
    using assms(4) by (rule disjE) simp_all
  then have f: "\<And>x. x \<in> set flag \<Longrightarrow> x \<noteq> CHR ''#''"
    by blast
  have t: "takeWhile (\<lambda>c. c \<noteq> CHR ''#'') (?path @ flag) = ?path @ flag"
    using a(1) f by (simp only: takeWhile_eq_all_conv set_append) blast
  have d: "dropWhile (\<lambda>c. c \<noteq> CHR ''#'') (?path @ flag) = []"
    using a(1) f by (simp only: dropWhile_eq_Nil_conv set_append) blast
  have fw: "takeWhile (\<lambda>c. c \<noteq> CHR ''?'') flag = []" "dropWhile (\<lambda>c. c \<noteq> CHR ''?'') flag = flag"
    using assms(4) by (rule disjE; simp)+
  have "takeWhile (\<lambda>c. c \<noteq> CHR ''?'') (?path @ flag) =
      ?path @ takeWhile (\<lambda>c. c \<noteq> CHR ''?'') flag"
    by (rule takeWhile_append2) (rule a(2))
  then have t2: "takeWhile (\<lambda>c. c \<noteq> CHR ''?'') (?path @ flag) = ?path"
    by (simp only: fw append_Nil2)
  have "dropWhile (\<lambda>c. c \<noteq> CHR ''?'') (?path @ flag) = dropWhile (\<lambda>c. c \<noteq> CHR ''?'') flag"
    by (rule dropWhile_append2) (rule a(2))
  then have d2: "dropWhile (\<lambda>c. c \<noteq> CHR ''?'') (?path @ flag) = flag"
    by (simp only: fw)
  have "routeLocation (CHR ''#'' # (?path @ flag)) =
    Some \<lparr>paramsProject = Some p, paramsVersion = Some v, paramsPage = Some pg,
          locationHash = [], searchHideUi = searchParamsGet ''hide-ui'' flag\<rparr>"
    unfolding routeLocation_def list.case Let_def t d t2 d2 matchRoute_path [OF assms(1-3)]
    by simp
  then show ?thesis by simp
qed

lemma getUrl_path:
  "getUrl p v pg h hide =
     ''#'' @ (''/'' @ p @ ''/'' @ v @ ''/'' @ encodeURIComponent pg) @ h @
       (if hide then ''?hide-ui=true'' else [])"
  by (simp add: getUrl_def)

lemma split_hash_flag:
  assumes "CHR ''?'' \<notin> set h"
  shows "split CHR ''?'' (h @ ''?hide-ui=true'') = [h, ''hide-ui=true'']"
    and "split CHR ''?'' (h @ []) = [h]"
  using split_first [OF assms, of "''hide-ui=true''"] split_none [OF assms] by simp_all

text \<open>
  C2. The claim says that every valid tuple whose page is free of the flag marker is
  decoded from its address. The page is percent-encoded and cannot collide with the
  marker; the hash is written as it is, and the component cuts the fragment at its first
  \<open>?\<close> (line 127). A hash holding a \<open>?\<close> does not come back.
\<close>

theorem address_round_trip_counterexample:
  "validNavigation (''docat'', ''1.2.0'', ''index.html'', ''#faq?install'', False) \<and>
   encode (''docat'', ''1.2.0'', ''index.html'', ''#faq?install'', False) =
     ''#/docat/1.2.0/index.html#faq?install'' \<and>
   decode (encode (''docat'', ''1.2.0'', ''index.html'', ''#faq?install'', False)) =
     Some (''docat'', ''1.2.0'', ''index.html'', ''#faq'', False)"
  by code_simp

text \<open>
  C2, amended. For every valid tuple whose hash holds no \<open>?\<close>, whatever its page,
  decoding the address that \<open>getUrl\<close> produces gives the tuple back: the route
  parameters give project, version and page, the fragment before \<open>?\<close> gives the hash,
  and the flag is read from the query parameter (empty hash) or from the fragment after
  \<open>?\<close>.
\<close>

theorem address_round_trip:
  assumes "validNavigation (p, v, pg, h, hide)" and "CHR ''?'' \<notin> set h"
  shows "decode (encode (p, v, pg, h, hide)) = Some (p, v, pg, h, hide)"
proof -
  from assms(1) have seg: "routeSegment p" "routeSegment v" "pg \<noteq> []"
    and frag: "h = [] \<or> hd h = CHR ''#''"
    by (simp_all add: validNavigation_def fragment_def)
  let ?flag = "if hide then ''?hide-ui=true'' else []"
  show ?thesis
  proof (cases "h = []")
    case True
    have fl: "?flag = [] \<or> ?flag = ''?hide-ui=true''" by simp
    have "routeLocation (getUrl p v pg h hide) =
      Some \<lparr>paramsProject = Some p, paramsVersion = Some v, paramsPage = Some pg,
            locationHash = [], searchHideUi = searchParamsGet ''hide-ui'' ?flag\<rparr>"
      unfolding getUrl_path True append_Nil using routeLocation_search [OF seg fl] .
    then show ?thesis
      by (simp add: decode_def encode_def extractNavigation_def urlProject_def urlVersion_def
          urlPage_def urlHash_def urlHideUi_def nullish_def index_def True searchParamsGet_flag)
  next
    case False
    with frag have hd: "hd h = CHR ''#''" by simp
    have "routeLocation (getUrl p v pg h hide) =
      Some \<lparr>paramsProject = Some p, paramsVersion = Some v, paramsPage = Some pg,
            locationHash = h @ ?flag, searchHideUi = None\<rparr>"
      unfolding getUrl_path using routeLocation_fragment [OF seg False hd] .
    then show ?thesis
      using split_hash_flag [OF assms(2)]
      by (simp add: decode_def encode_def extractNavigation_def urlProject_def urlVersion_def
          urlPage_def urlHash_def urlHideUi_def nullish_def index_def)
  qed
qed

theorem address_round_trip_witness:
  "validNavigation (''docat'', ''1.2.0'', ''guide/usage page.html'', ''#install'', True) \<and>
   CHR ''?'' \<notin> set ''#install'' \<and>
   encode (''docat'', ''1.2.0'', ''guide/usage page.html'', ''#install'', True) =
     ''#/docat/1.2.0/guide%2Fusage%20page.html#install?hide-ui=true'' \<and>
   decode ''#/docat/1.2.0/guide%2Fusage%20page.html#install?hide-ui=true'' =
     Some (''docat'', ''1.2.0'', ''guide/usage page.html'', ''#install'', True) \<and>
   validNavigation (''docat'', ''latest'', ''index.html'', '''', True) \<and>
   CHR ''?'' \<notin> set '''' \<and>
   encode (''docat'', ''latest'', ''index.html'', '''', True) =
     ''#/docat/latest/index.html?hide-ui=true'' \<and>
   decode ''#/docat/latest/index.html?hide-ui=true'' =
     Some (''docat'', ''latest'', ''index.html'', '''', True)"
proof -
  have a: "validNavigation (''docat'', ''1.2.0'', ''guide/usage page.html'', ''#install'', True)"
    "validNavigation (''docat'', ''latest'', ''index.html'', '''', True)"
    by code_simp+
  have b: "CHR ''?'' \<notin> set ''#install''" "CHR ''?'' \<notin> set ''''" by simp_all
  have c: "encode (''docat'', ''1.2.0'', ''guide/usage page.html'', ''#install'', True) =
     ''#/docat/1.2.0/guide%2Fusage%20page.html#install?hide-ui=true''"
    "encode (''docat'', ''latest'', ''index.html'', '''', True) =
     ''#/docat/latest/index.html?hide-ui=true''"
    by code_simp+
  show ?thesis
    using a b c address_round_trip [OF a(1) b(1)] address_round_trip [OF a(2) b(2)] by simp
qed

subsection \<open>Rendering\<close>

lemma rendered_render: "rendered (render repo s)"
  by (simp add: rendered_def render_def outdatedBannerEffect_def outdatedBanner_def
      iFrameSrcMemo_def Let_def)

lemma rendered_step: "rendered (step repo e s)"
  by (cases e) (simp_all add: rendered_render)

lemma rendered_mount: "rendered (mount repo loc)"
  by (simp add: rendered_def mount_def)

lemmas render_defs = render_def outdatedBannerEffect_def outdatedBanner_def iFrameSrcMemo_def

lemma render_fields:
  "versions (render repo s) = versions s" "versionsId (render repo s) = versionsId s"
  "loadingFailed (render repo s) = loadingFailed s" "project (render repo s) = project s"
  "page (render repo s) = page s" "hash (render repo s) = hash s"
  "version (render repo s) = version s" "hideUi (render repo s) = hideUi s"
  "iframeUpdateTrigger (render repo s) = iframeUpdateTrigger s" "pushed (render repo s) = pushed s"
  by (simp_all add: render_defs Let_def)

lemma render_iFrameSrc:
  "iFrameSrc (render repo s) =
     (if iFrameSrcDeps s = (version s, iframeUpdateTrigger s) then iFrameSrc s
      else getProjectDocsURL repo (project s) (version s) (page s) (hash s))"
  "iFrameSrcComputations (render repo s) =
     (if iFrameSrcDeps s = (version s, iframeUpdateTrigger s) then iFrameSrcComputations s
      else Suc (iFrameSrcComputations s))"
  by (simp_all add: render_defs Let_def)

lemma outdatedBanner_bannerCalls:
  "bannerCalls (outdatedBanner repo s) =
     (if versions s = [] then bannerCalls s
      else if version s = name (getLatestVersion repo (versions s))
        then bannerCalls s @ [ClearMessages]
      else bannerCalls s @
        [ShowMessage \<lparr>content = ''You are viewing an outdated version of the documentation.'',
                      messageKind = Warning, showMs = None\<rparr>])"
  unfolding outdatedBanner_def Let_def by simp

lemma render_bannerCalls:
  "bannerCalls (render repo s) =
     (if bannerDeps s = (version s, versionsId s) then bannerCalls s
      else if versions s = [] then bannerCalls s
      else if version s = name (getLatestVersion repo (versions s))
        then bannerCalls s @ [ClearMessages]
      else bannerCalls s @
        [ShowMessage \<lparr>content = ''You are viewing an outdated version of the documentation.'',
                      messageKind = Warning, showMs = None\<rparr>])"
proof (cases "bannerDeps s = (version s, versionsId s)")
  case True
  then show ?thesis
    by (simp add: render_def outdatedBannerEffect_def iFrameSrcMemo_def)
next
  case False
  then have "bannerCalls (render repo s) =
      bannerCalls (outdatedBanner repo ((iFrameSrcMemo repo s)\<lparr>bannerDeps := (version s, versionsId s)\<rparr>))"
    by (simp add: render_def outdatedBannerEffect_def iFrameSrcMemo_def)
  with False show ?thesis
    by (simp add: outdatedBanner_bannerCalls iFrameSrcMemo_def)
qed

subsection \<open>The continuation of the version fetch\<close>

lemma versionsFetched_empty:
  "versionsFetched repo requested (Inr []) s = s\<lparr>loadingFailed := True\<rparr>"
  by (simp add: versionsFetched_def)

lemma versionsFetched_fields:
  "project (versionsFetched repo requested fetched s) = project s"
  "page (versionsFetched repo requested fetched s) = page s"
  "hash (versionsFetched repo requested fetched s) = hash s"
  "hideUi (versionsFetched repo requested fetched s) = hideUi s"
  "iframeUpdateTrigger (versionsFetched repo requested fetched s) = iframeUpdateTrigger s"
  "pushed (versionsFetched repo requested fetched s) = pushed s"
  "bannerCalls (versionsFetched repo requested fetched s) = bannerCalls s"
  "iFrameSrc (versionsFetched repo requested fetched s) = iFrameSrc s"
  "iFrameSrcDeps (versionsFetched repo requested fetched s) = iFrameSrcDeps s"
  "iFrameSrcComputations (versionsFetched repo requested fetched s) = iFrameSrcComputations s"
  "bannerDeps (versionsFetched repo requested fetched s) = bannerDeps s"
  by (simp_all add: versionsFetched_def Let_def split: sum.split)

lemma versionsFetched_nonempty:
  assumes "fetched \<noteq> []"
  shows "versions (versionsFetched repo requested (Inr fetched) s) = sortBy (compareVersions repo) fetched"
    and "versionsId (versionsFetched repo requested (Inr fetched) s) = Suc (versionsId s)"
    and "version (versionsFetched repo requested (Inr fetched) s) =
          (if requested = ''latest'' \<and>
              name (getLatestVersion repo (sortBy (compareVersions repo) fetched)) \<noteq> ''latest''
           then name (getLatestVersion repo (sortBy (compareVersions repo) fetched))
           else version s)"
    and "loadingFailed (versionsFetched repo requested (Inr fetched) s) =
          (if requested \<noteq> ''latest'' \<and>
              \<not> (\<exists>v\<in>set fetched. requested = name v \<or> requested \<in> set (tags v))
           then True else loadingFailed s)"
  using assms by (simp_all add: versionsFetched_def Let_def set_sortBy)

subsection \<open>Version resolution\<close>

text \<open>
  C8. When the fetched version collection is empty, the resolution fails for good: the
  flag \<open>loadingFailed\<close> is set and the component renders the not-found page, whatever
  version was requested. The version list and the version stay as they were.
\<close>

theorem empty_version_set_fails:
  "loadingFailed (step repo (VersionsFetched requested (Inr [])) s) \<and>
   docsView (step repo (VersionsFetched requested (Inr [])) s) = NotFound \<and>
   versions (step repo (VersionsFetched requested (Inr [])) s) = versions s \<and>
   version (step repo (VersionsFetched requested (Inr [])) s) = version s"
  by (simp add: render_fields versionsFetched_empty docsView_def)

theorem empty_version_set_fails_witness:
  "loadingFailed (step exampleRepository (VersionsFetched ''9.9.9'' (Inr []))
     (mount exampleRepository unknownVersionLocation)) \<and>
   docsView (step exampleRepository (VersionsFetched ''9.9.9'' (Inr []))
     (mount exampleRepository unknownVersionLocation)) = NotFound \<and>
   versions (step exampleRepository (VersionsFetched ''9.9.9'' (Inr []))
     (mount exampleRepository unknownVersionLocation)) = [] \<and>
   version (step exampleRepository (VersionsFetched ''9.9.9'' (Inr []))
     (mount exampleRepository unknownVersionLocation)) = ''9.9.9''"
  using empty_version_set_fails [of exampleRepository "''9.9.9''"
      "mount exampleRepository unknownVersionLocation"]
  by (simp add: mount_def urlVersion_def unknownVersionLocation_def nullish_def)

text \<open>
  C7. For a requested version other than \<open>latest\<close> and a non-empty fetched version
  list, starting from a state that has not failed, the resolution succeeds (leaves
  \<open>loadingFailed\<close> unset) exactly when the requested version is the name of a fetched
  version or one of its tags; otherwise \<open>loadingFailed\<close> is set and the component
  renders the not-found page. In both cases the sorted list is stored and the version
  is left as it was.
\<close>

theorem concrete_version_resolution:
  assumes "requested \<noteq> ''latest''" and "fetched \<noteq> []" and "\<not> loadingFailed s"
    and "s' = step repo (VersionsFetched requested (Inr fetched)) s"
  shows "(\<not> loadingFailed s') = (\<exists>v\<in>set fetched. requested = name v \<or> requested \<in> set (tags v)) \<and>
         (loadingFailed s' \<longrightarrow> docsView s' = NotFound) \<and>
         versions s' = sortBy (compareVersions repo) fetched \<and> version s' = version s"
  using assms
  by (simp add: render_fields versionsFetched_nonempty docsView_def)

theorem concrete_version_resolution_witness:
  "''9.9.9'' \<noteq> ''latest'' \<and> [\<lparr>name = ''2.0.0'', tags = []\<rparr>] \<noteq> [] \<and>
   \<not> loadingFailed (mount exampleRepository unknownVersionLocation) \<and>
   loadingFailed (step exampleRepository
     (VersionsFetched ''9.9.9'' (Inr [\<lparr>name = ''2.0.0'', tags = []\<rparr>]))
     (mount exampleRepository unknownVersionLocation)) \<and>
   docsView (step exampleRepository
     (VersionsFetched ''9.9.9'' (Inr [\<lparr>name = ''2.0.0'', tags = []\<rparr>]))
     (mount exampleRepository unknownVersionLocation)) = NotFound \<and>
   \<not> loadingFailed (step exampleRepository
     (VersionsFetched ''stable'' (Inr exampleVersions))
     (mount exampleRepository unknownVersionLocation))"
proof -
  have a: "''9.9.9'' \<noteq> ''latest''" by simp
  have b: "[\<lparr>name = ''2.0.0'', tags = []\<rparr>] \<noteq> []" by simp
  have c: "\<not> loadingFailed (mount exampleRepository unknownVersionLocation)"
    by (simp add: mount_def)
  have d: "''stable'' \<noteq> ''latest''" by simp
  have e: "exampleVersions \<noteq> []" by (simp add: exampleVersions_def)
  show ?thesis
    using a b c concrete_version_resolution [OF a b c refl, of exampleRepository]
      concrete_version_resolution [OF d e c refl, of exampleRepository]
    by (simp add: exampleVersions_def)
qed

text \<open>
  C1. For the requested version \<open>latest\<close> and a non-empty fetched version list, the
  claim says that the version becomes the name of the latest version and that the ambient
  address is derived again, and that, when that name is itself \<open>latest\<close>, the
  resolution stays in a transient state that is neither success nor failure. The code
  sets the version and pushes no address: with the versions 1.0.0, 1.2.0 and 1.1.0 the
  version becomes 1.2.0 and nothing has been given to \<open>pushState\<close>. And when the name
  of the latest version is \<open>latest\<close> (versions 1.0.0 and \<open>latest\<close>), the resolution
  ends as a success does: the component renders the document at version \<open>latest\<close>,
  not the loading page, and the banner is cleared.
\<close>

theorem latest_resolution_counterexample:
  "version (step exampleRepository (VersionsFetched ''latest'' (Inr exampleVersions))
     (mount exampleRepository exampleLocation)) = ''1.2.0'' \<and>
   pushed (step exampleRepository (VersionsFetched ''latest'' (Inr exampleVersions))
     (mount exampleRepository exampleLocation)) = [] \<and>
   name (getLatestVersion exampleRepository
     (sortBy (compareVersions exampleRepository) sentinelVersions)) = ''latest'' \<and>
   docsView (step exampleRepository (VersionsFetched ''latest'' (Inr sentinelVersions))
     (mount exampleRepository exampleLocation)) = Document ''/doc/docat/latest/index.html'' True \<and>
   bannerCalls (step exampleRepository (VersionsFetched ''latest'' (Inr sentinelVersions))
     (mount exampleRepository exampleLocation)) = [ClearMessages]"
  by code_simp

text \<open>
  C1, amended. For the requested version \<open>latest\<close> and a non-empty fetched version
  list, the resolution stores the sorted list, leaves \<open>loadingFailed\<close> as it was and
  gives no address to \<open>pushState\<close>. When the name of the latest version is not
  \<open>latest\<close>, the version becomes that name, and, from a rendered state, a changed
  version makes the viewer's address be computed from it. When the name is \<open>latest\<close>,
  the version is left as it was and the resolution ends as a success: from a rendered
  state at version \<open>latest\<close> the banner is cleared. In both cases, for a non-empty
  project and a state that has not failed, the component renders the document, neither
  the loading page nor the not-found page.
\<close>

theorem latest_resolution:
  assumes "fetched \<noteq> []"
    and "s' = step repo (VersionsFetched ''latest'' (Inr fetched)) s"
    and "latest = name (getLatestVersion repo (sortBy (compareVersions repo) fetched))"
  shows "version s' = (if latest = ''latest'' then version s else latest) \<and>
         loadingFailed s' = loadingFailed s \<and>
         versions s' = sortBy (compareVersions repo) fetched \<and>
         pushed s' = pushed s \<and>
         (rendered s \<and> version s' \<noteq> version s \<longrightarrow>
            iFrameSrc s' = getProjectDocsURL repo (project s) latest (page s) (hash s)) \<and>
         (project s \<noteq> '''' \<and> \<not> loadingFailed s \<longrightarrow>
            docsView s' = Document (iFrameSrc s') (\<not> hideUi s')) \<and>
         (rendered s \<and> latest = ''latest'' \<and> version s = ''latest'' \<longrightarrow>
            bannerCalls s' = bannerCalls s @ [ClearMessages])"
proof -
  let ?t = "versionsFetched repo ''latest'' (Inr fetched) s"
  have s': "s' = render repo ?t" using assms(2) by simp
  have f: "version s' = (if latest = ''latest'' then version s else latest)"
    "loadingFailed s' = loadingFailed s"
    "versions s' = sortBy (compareVersions repo) fetched"
    "pushed s' = pushed s" "project s' = project s"
    unfolding s' assms(3)
    by (simp_all add: render_fields versionsFetched_nonempty [OF assms(1)] versionsFetched_fields)
  have m: "rendered s \<and> version s' \<noteq> version s \<longrightarrow>
      iFrameSrc s' = getProjectDocsURL repo (project s) latest (page s) (hash s)"
    unfolding s' assms(3)
    by (simp add: render_fields render_iFrameSrc versionsFetched_nonempty [OF assms(1)]
        versionsFetched_fields rendered_def)
  have ne: "versions s' \<noteq> []"
    unfolding f(3) using assms(1) by (rule sortBy_nonempty)
  have v: "project s \<noteq> '''' \<and> \<not> loadingFailed s \<longrightarrow>
      docsView s' = Document (iFrameSrc s') (\<not> hideUi s')"
    using ne by (simp add: docsView_def f)
  have b: "rendered s \<and> latest = ''latest'' \<and> version s = ''latest'' \<longrightarrow>
      bannerCalls s' = bannerCalls s @ [ClearMessages]"
  proof
    assume a: "rendered s \<and> latest = ''latest'' \<and> version s = ''latest''"
    have t: "bannerDeps ?t = (version s, versionsId s)" "versionsId ?t = Suc (versionsId s)"
      "versions ?t = sortBy (compareVersions repo) fetched" "version ?t = ''latest''"
      "bannerCalls ?t = bannerCalls s"
      using a assms(3)
      by (simp_all add: versionsFetched_nonempty [OF assms(1)] versionsFetched_fields rendered_def)
    have n: "name (getLatestVersion repo (versions ?t)) = ''latest''"
      using a assms(3) by (simp only: t(3))
    have "bannerCalls (render repo ?t) =
     (if bannerDeps ?t = (version ?t, versionsId ?t) then bannerCalls ?t
      else if versions ?t = [] then bannerCalls ?t
      else if version ?t = name (getLatestVersion repo (versions ?t))
        then bannerCalls ?t @ [ClearMessages]
      else bannerCalls ?t @
        [ShowMessage \<lparr>content = ''You are viewing an outdated version of the documentation.'',
                      messageKind = Warning, showMs = None\<rparr>])"
      by (rule render_bannerCalls)
    then show "bannerCalls s' = bannerCalls s @ [ClearMessages]"
      unfolding s' n using sortBy_nonempty [OF assms(1), of "compareVersions repo"]
      by (simp add: t)
  qed
  show ?thesis using f(1-4) m v b by blast
qed

theorem latest_resolution_witness:
  "exampleVersions \<noteq> [] \<and>
   rendered (mount exampleRepository exampleLocation) \<and>
   version (step exampleRepository (VersionsFetched ''latest'' (Inr exampleVersions))
     (mount exampleRepository exampleLocation)) = ''1.2.0'' \<and>
   version (mount exampleRepository exampleLocation) = ''latest'' \<and>
   pushed (step exampleRepository (VersionsFetched ''latest'' (Inr exampleVersions))
     (mount exampleRepository exampleLocation)) = [] \<and>
   iFrameSrc (step exampleRepository (VersionsFetched ''latest'' (Inr exampleVersions))
     (mount exampleRepository exampleLocation)) = ''/doc/docat/1.2.0/index.html'' \<and>
   sentinelVersions \<noteq> [] \<and>
   name (getLatestVersion exampleRepository
     (sortBy (compareVersions exampleRepository) sentinelVersions)) = ''latest'' \<and>
   project (mount exampleRepository exampleLocation) \<noteq> '''' \<and>
   \<not> loadingFailed (mount exampleRepository exampleLocation) \<and>
   version (step exampleRepository (VersionsFetched ''latest'' (Inr sentinelVersions))
     (mount exampleRepository exampleLocation)) = ''latest'' \<and>
   docsView (step exampleRepository (VersionsFetched ''latest'' (Inr sentinelVersions))
     (mount exampleRepository exampleLocation)) = Document ''/doc/docat/latest/index.html'' True \<and>
   bannerCalls (step exampleRepository (VersionsFetched ''latest'' (Inr sentinelVersions))
     (mount exampleRepository exampleLocation)) = [ClearMessages]"
proof -
  have a: "exampleVersions \<noteq> []" "sentinelVersions \<noteq> []"
    by (simp_all add: exampleVersions_def sentinelVersions_def)
  have l: "name (getLatestVersion exampleRepository
      (sortBy (compareVersions exampleRepository) exampleVersions)) = ''1.2.0''"
    "name (getLatestVersion exampleRepository
      (sortBy (compareVersions exampleRepository) sentinelVersions)) = ''latest''"
    by code_simp+
  have m: "version (mount exampleRepository exampleLocation) = ''latest''"
    "pushed (mount exampleRepository exampleLocation) = []"
    "project (mount exampleRepository exampleLocation) = ''docat''"
    "page (mount exampleRepository exampleLocation) = ''index.html''"
    "hash (mount exampleRepository exampleLocation) = ''''"
    "\<not> loadingFailed (mount exampleRepository exampleLocation)"
    "bannerCalls (mount exampleRepository exampleLocation) = []"
    by code_simp+
  have g: "getProjectDocsURL exampleRepository ''docat'' ''1.2.0'' ''index.html'' '''' =
      ''/doc/docat/1.2.0/index.html''"
    by (simp add: exampleRepository_def)
  have d: "iFrameSrc (step exampleRepository (VersionsFetched ''latest'' (Inr sentinelVersions))
     (mount exampleRepository exampleLocation)) = ''/doc/docat/latest/index.html''"
    "hideUi (step exampleRepository (VersionsFetched ''latest'' (Inr sentinelVersions))
     (mount exampleRepository exampleLocation)) = False"
    by code_simp+
  show ?thesis
    using a rendered_mount [of exampleRepository exampleLocation]
      latest_resolution [where repo = exampleRepository and
        s = "mount exampleRepository exampleLocation", OF a(1) refl refl]
      latest_resolution [where repo = exampleRepository and
        s = "mount exampleRepository exampleLocation", OF a(2) refl refl]
    by (simp add: l m g d del: step.simps)
qed

subsection \<open>What the handlers change\<close>

lemma locationChanged_fields:
  "project (locationChanged loc s) = urlProject loc"
  "version (locationChanged loc s) = urlVersion loc"
  "hideUi (locationChanged loc s) = urlHideUi loc"
  "page (locationChanged loc s) = urlPage loc"
  "hash (locationChanged loc s) = urlHash loc"
  "loadingFailed (locationChanged loc s) = loadingFailed s"
  "pushed (locationChanged loc s) = pushed s"
  "bannerCalls (locationChanged loc s) = bannerCalls s"
  "iFrameSrc (locationChanged loc s) = iFrameSrc s"
  "iFrameSrcDeps (locationChanged loc s) = iFrameSrcDeps s"
  "iFrameSrcComputations (locationChanged loc s) = iFrameSrcComputations s"
  "bannerDeps (locationChanged loc s) = bannerDeps s"
  "versions (locationChanged loc s) = (if urlProject loc \<noteq> project s then [] else versions s)"
  "versionsId (locationChanged loc s) =
     (if urlProject loc \<noteq> project s then Suc (versionsId s) else versionsId s)"
  "iframeUpdateTrigger (locationChanged loc s) =
     iframeUpdateTrigger s + (if urlPage loc \<noteq> page s then 1 else 0) +
       (if urlHash loc \<noteq> hash s then 1 else 0)"
  by (simp_all add: locationChanged_def Let_def)

lemma updateUrl_fields:
  "project (updateUrl v h s) = project s" "version (updateUrl v h s) = version s"
  "hideUi (updateUrl v h s) = hideUi s" "page (updateUrl v h s) = page s"
  "hash (updateUrl v h s) = hash s" "loadingFailed (updateUrl v h s) = loadingFailed s"
  "bannerCalls (updateUrl v h s) = bannerCalls s" "iFrameSrc (updateUrl v h s) = iFrameSrc s"
  "iFrameSrcDeps (updateUrl v h s) = iFrameSrcDeps s"
  "iFrameSrcComputations (updateUrl v h s) = iFrameSrcComputations s"
  "bannerDeps (updateUrl v h s) = bannerDeps s" "versions (updateUrl v h s) = versions s"
  "versionsId (updateUrl v h s) = versionsId s"
  "iframeUpdateTrigger (updateUrl v h s) = iframeUpdateTrigger s"
  "pushed (updateUrl v h s) = pushed s @ [getUrl (project s) v (page s) (hash s) h]"
  by (simp_all add: updateUrl_def)

lemma iFramePageChanged_fields:
  "project (iFramePageChanged p h s) = project s" "version (iFramePageChanged p h s) = version s"
  "hideUi (iFramePageChanged p h s) = hideUi s" "page (iFramePageChanged p h s) = p"
  "hash (iFramePageChanged p h s) = (if p = page s then hash s else h)"
  "loadingFailed (iFramePageChanged p h s) = loadingFailed s"
  "bannerCalls (iFramePageChanged p h s) = bannerCalls s"
  "iFrameSrc (iFramePageChanged p h s) = iFrameSrc s"
  "iFrameSrcDeps (iFramePageChanged p h s) = iFrameSrcDeps s"
  "iFrameSrcComputations (iFramePageChanged p h s) = iFrameSrcComputations s"
  "bannerDeps (iFramePageChanged p h s) = bannerDeps s"
  "versions (iFramePageChanged p h s) = versions s"
  "versionsId (iFramePageChanged p h s) = versionsId s"
  "iframeUpdateTrigger (iFramePageChanged p h s) = iframeUpdateTrigger s"
  "pushed (iFramePageChanged p h s) =
     (if p = page s then pushed s
      else pushed s @ [getUrl (project s) (version s) p h (hideUi s)])"
  by (simp_all add: iFramePageChanged_def updateUrl_fields)

lemma iFrameHashChanged_fields:
  "project (iFrameHashChanged h s) = project s" "version (iFrameHashChanged h s) = version s"
  "hideUi (iFrameHashChanged h s) = hideUi s" "page (iFrameHashChanged h s) = page s"
  "hash (iFrameHashChanged h s) = h"
  "loadingFailed (iFrameHashChanged h s) = loadingFailed s"
  "bannerCalls (iFrameHashChanged h s) = bannerCalls s"
  "iFrameSrc (iFrameHashChanged h s) = iFrameSrc s"
  "iFrameSrcDeps (iFrameHashChanged h s) = iFrameSrcDeps s"
  "iFrameSrcComputations (iFrameHashChanged h s) = iFrameSrcComputations s"
  "bannerDeps (iFrameHashChanged h s) = bannerDeps s"
  "versions (iFrameHashChanged h s) = versions s"
  "versionsId (iFrameHashChanged h s) = versionsId s"
  "iframeUpdateTrigger (iFrameHashChanged h s) = iframeUpdateTrigger s"
  "pushed (iFrameHashChanged h s) =
     (if h = hash s then pushed s
      else pushed s @ [getUrl (project s) (version s) (page s) h (hideUi s)])"
  by (simp_all add: iFrameHashChanged_def updateUrl_fields)

lemma onVersionChanged_fields:
  "project (onVersionChanged v s) = project s" "version (onVersionChanged v s) = v"
  "hideUi (onVersionChanged v s) = hideUi s" "page (onVersionChanged v s) = page s"
  "hash (onVersionChanged v s) = hash s"
  "loadingFailed (onVersionChanged v s) = loadingFailed s"
  "bannerCalls (onVersionChanged v s) = bannerCalls s"
  "iFrameSrc (onVersionChanged v s) = iFrameSrc s"
  "iFrameSrcDeps (onVersionChanged v s) = iFrameSrcDeps s"
  "iFrameSrcComputations (onVersionChanged v s) = iFrameSrcComputations s"
  "bannerDeps (onVersionChanged v s) = bannerDeps s"
  "versions (onVersionChanged v s) = versions s"
  "versionsId (onVersionChanged v s) = versionsId s"
  "iframeUpdateTrigger (onVersionChanged v s) = iframeUpdateTrigger s"
  "pushed (onVersionChanged v s) =
     (if v = version s then pushed s
      else pushed s @ [getUrl (project s) v (page s) (hash s) (hideUi s)])"
  by (simp_all add: onVersionChanged_def updateUrl_fields)

lemma onHideUi_fields:
  "project (onHideUi s) = project s" "version (onHideUi s) = version s"
  "hideUi (onHideUi s) = True" "page (onHideUi s) = page s"
  "hash (onHideUi s) = hash s"
  "loadingFailed (onHideUi s) = loadingFailed s"
  "bannerCalls (onHideUi s) = bannerCalls s"
  "iFrameSrc (onHideUi s) = iFrameSrc s"
  "iFrameSrcDeps (onHideUi s) = iFrameSrcDeps s"
  "iFrameSrcComputations (onHideUi s) = iFrameSrcComputations s"
  "bannerDeps (onHideUi s) = bannerDeps s"
  "versions (onHideUi s) = versions s"
  "versionsId (onHideUi s) = versionsId s"
  "iframeUpdateTrigger (onHideUi s) = iframeUpdateTrigger s"
  "pushed (onHideUi s) = pushed s @ [getUrl (project s) (version s) (page s) (hash s) True]"
  by (simp_all add: onHideUi_def updateUrl_fields)

lemma render_rendered: "rendered s \<Longrightarrow> render repo s = s"
  by (simp add: rendered_def render_defs)

lemmas handler_fields = render_fields locationChanged_fields versionsFetched_fields
  iFramePageChanged_fields iFrameHashChanged_fields onVersionChanged_fields onHideUi_fields


lemma step_iFrameSrcDeps_before:
  "rendered s \<Longrightarrow> \<exists>t. step repo e s = render repo t \<and> iFrameSrcDeps t = (version s, iframeUpdateTrigger s)
     \<and> iFrameSrc t = iFrameSrc s \<and> iFrameSrcComputations t = iFrameSrcComputations s
     \<and> version t = version (step repo e s) \<and> iframeUpdateTrigger t = iframeUpdateTrigger (step repo e s)
     \<and> project t = project (step repo e s) \<and> page t = page (step repo e s)
     \<and> hash t = hash (step repo e s)"
  by (cases e) (auto simp add: handler_fields rendered_def)

lemma step_memo:
  assumes "rendered s"
  shows "iFrameSrc (step repo e s) =
           (if version (step repo e s) = version s \<and>
               iframeUpdateTrigger (step repo e s) = iframeUpdateTrigger s then iFrameSrc s
            else getProjectDocsURL repo (project (step repo e s)) (version (step repo e s))
                   (page (step repo e s)) (hash (step repo e s)))"
    and "iFrameSrcComputations (step repo e s) =
           (if version (step repo e s) = version s \<and>
               iframeUpdateTrigger (step repo e s) = iframeUpdateTrigger s
            then iFrameSrcComputations s else Suc (iFrameSrcComputations s))"
proof -
  from step_iFrameSrcDeps_before [OF assms, of repo e] obtain t where
    t: "step repo e s = render repo t" "iFrameSrcDeps t = (version s, iframeUpdateTrigger s)"
      "iFrameSrc t = iFrameSrc s" "iFrameSrcComputations t = iFrameSrcComputations s"
      "version t = version (step repo e s)"
      "iframeUpdateTrigger t = iframeUpdateTrigger (step repo e s)"
      "project t = project (step repo e s)" "page t = page (step repo e s)"
      "hash t = hash (step repo e s)"
    by blast
  have "iFrameSrc (render repo t) =
      (if iFrameSrcDeps t = (version t, iframeUpdateTrigger t) then iFrameSrc t
       else getProjectDocsURL repo (project t) (version t) (page t) (hash t))"
    by (rule render_iFrameSrc)
  with t show "iFrameSrc (step repo e s) =
           (if version (step repo e s) = version s \<and>
               iframeUpdateTrigger (step repo e s) = iframeUpdateTrigger s then iFrameSrc s
            else getProjectDocsURL repo (project (step repo e s)) (version (step repo e s))
                   (page (step repo e s)) (hash (step repo e s)))"
    by (auto simp del: step.simps)
  have "iFrameSrcComputations (render repo t) =
      (if iFrameSrcDeps t = (version t, iframeUpdateTrigger t) then iFrameSrcComputations t
       else Suc (iFrameSrcComputations t))"
    by (rule render_iFrameSrc)
  with t show "iFrameSrcComputations (step repo e s) =
           (if version (step repo e s) = version s \<and>
               iframeUpdateTrigger (step repo e s) = iframeUpdateTrigger s
            then iFrameSrcComputations s else Suc (iFrameSrcComputations s))"
    by (auto simp del: step.simps)
qed

lemma rendered_exampleState: "rendered exampleState"
  unfolding exampleState_def by (rule rendered_step)

subsection \<open>The hide-ui flag\<close>

lemma hideUi_step: "hideUi (step repo e s) = (case e of LocationChanged loc \<Rightarrow> urlHideUi loc
    | HideUiRequested \<Rightarrow> True | _ \<Rightarrow> hideUi s)"
  by (cases e) (simp_all add: render_fields locationChanged_fields versionsFetched_fields
      iFramePageChanged_fields iFrameHashChanged_fields onVersionChanged_fields onHideUi_fields)

lemma hideUi_run: "hideUi s \<Longrightarrow> \<forall>e\<in>set es. keepsHideUi e \<Longrightarrow> hideUi (run repo es s)"
proof (induction es arbitrary: s)
  case Nil
  then show ?case by simp
next
  case (Cons e es)
  from Cons.prems have "hideUi (step repo e s)"
    by (cases e) (simp_all add: hideUi_step del: step.simps)
  with Cons show ?case by simp
qed

text \<open>
  C3. The claim says that no transition sets \<open>hideUi\<close> back to false. An address
  change does: the location effect copies the flag of the address into the state (lines
  140 to 142). After the user has hidden the controls, a change to an address of the
  same project without the flag shows them again.
\<close>

theorem hideUi_kept_counterexample:
  "hideUi (step exampleRepository HideUiRequested exampleState) \<and>
   \<not> hideUi (run exampleRepository [HideUiRequested, LocationChanged pinnedLocation] exampleState) \<and>
   project (run exampleRepository [HideUiRequested, LocationChanged pinnedLocation] exampleState) =
     project exampleState"
  by code_simp

text \<open>
  C3, amended. Once \<open>hideUi\<close> is true it stays true along every sequence of events in
  which each address change goes to an address that carries the flag: page and hash
  changes reported by the viewer, the arrival of the versions, version selections and the
  hide-ui action never reset it. An address change sets \<open>hideUi\<close> to the flag of the
  new address, whatever it was.
\<close>

theorem hideUi_kept:
  "(hideUi s \<and> (\<forall>e\<in>set es. keepsHideUi e) \<longrightarrow> hideUi (run repo es s)) \<and>
   hideUi (step repo (LocationChanged loc) s) = urlHideUi loc"
  by (simp add: hideUi_run hideUi_step del: step.simps)

theorem hideUi_kept_witness:
  "hideUi (step exampleRepository HideUiRequested exampleState) \<and>
   list_all keepsHideUi [PageChanged ''usage.html'' ''#install'', VersionSelected ''1.0.0'',
     LocationChanged hiddenLocation] \<and>
   hideUi (run exampleRepository
     [PageChanged ''usage.html'' ''#install'', VersionSelected ''1.0.0'',
      LocationChanged hiddenLocation]
     (step exampleRepository HideUiRequested exampleState)) \<and>
   hideUi (step exampleRepository (LocationChanged hiddenLocation) exampleState) \<and>
   \<not> hideUi (step exampleRepository (LocationChanged pinnedLocation)
       (step exampleRepository HideUiRequested exampleState))"
proof -
  have a: "hideUi (step exampleRepository HideUiRequested exampleState)"
    by code_simp
  have b: "\<forall>e\<in>set [PageChanged ''usage.html'' ''#install'', VersionSelected ''1.0.0'',
               LocationChanged hiddenLocation]. keepsHideUi e"
    by code_simp
  have c: "urlHideUi hiddenLocation" "\<not> urlHideUi pinnedLocation"
    by code_simp+
  show ?thesis
    using a b c
      hideUi_kept [of "step exampleRepository HideUiRequested exampleState"
        "[PageChanged ''usage.html'' ''#install'', VersionSelected ''1.0.0'',
          LocationChanged hiddenLocation]" exampleRepository pinnedLocation]
      hideUi_kept [of exampleState "[]" exampleRepository hiddenLocation]
    by (simp del: step.simps run.simps)
qed

subsection \<open>The address of the embedded viewer\<close>




lemma viewer_step:
  assumes "rendered s" and "viewerEvent e"
  shows "iFrameSrc (step repo e s) = iFrameSrc s \<and>
         iFrameSrcComputations (step repo e s) = iFrameSrcComputations s \<and>
         project (step repo e s) = project s \<and> version (step repo e s) = version s"
proof -
  have "version (step repo e s) = version s" "project (step repo e s) = project s"
    "iframeUpdateTrigger (step repo e s) = iframeUpdateTrigger s"
    using assms(2) by (cases e; simp add: handler_fields)+
  then show ?thesis
    using step_memo [OF assms(1), of repo e] by simp
qed

lemma viewer_run:
  "rendered s \<Longrightarrow> \<forall>e\<in>set es. viewerEvent e \<Longrightarrow>
   iFrameSrc (run repo es s) = iFrameSrc s \<and>
   iFrameSrcComputations (run repo es s) = iFrameSrcComputations s \<and>
   project (run repo es s) = project s \<and> version (run repo es s) = version s"
proof (induction es arbitrary: s)
  case Nil
  then show ?case by simp
next
  case (Cons e es)
  have "rendered (step repo e s)" by (rule rendered_step)
  moreover from Cons.prems have "\<forall>e\<in>set es. viewerEvent e" by simp
  ultimately have "iFrameSrc (run repo es (step repo e s)) = iFrameSrc (step repo e s) \<and>
   iFrameSrcComputations (run repo es (step repo e s)) = iFrameSrcComputations (step repo e s) \<and>
   project (run repo es (step repo e s)) = project (step repo e s) \<and>
   version (run repo es (step repo e s)) = version (step repo e s)"
    by (rule Cons.IH)
  moreover from Cons.prems have "iFrameSrc (step repo e s) = iFrameSrc s \<and>
         iFrameSrcComputations (step repo e s) = iFrameSrcComputations s \<and>
         project (step repo e s) = project s \<and> version (step repo e s) = version s"
    by (intro viewer_step) simp_all
  ultimately show ?case by (simp del: step.simps)
qed

text \<open>
  C5. From a rendered state, along every sequence of page and hash changes reported by
  the viewer, the address of the viewer is never computed again and keeps its value, and
  project and version stay as they are. A reported page other than the current one is
  stored with its hash, and a reported hash other than the current one is stored; each
  pushes the address of the new page and hash.
\<close>

theorem viewer_navigation_no_reload:
  assumes "rendered s" and "\<forall>e\<in>set es. viewerEvent e"
  shows "iFrameSrc (run repo es s) = iFrameSrc s \<and>
         iFrameSrcComputations (run repo es s) = iFrameSrcComputations s \<and>
         project (run repo es s) = project s \<and> version (run repo es s) = version s \<and>
         (urlPage' \<noteq> page s \<longrightarrow>
            page (step repo (PageChanged urlPage' urlHash') s) = urlPage' \<and>
            hash (step repo (PageChanged urlPage' urlHash') s) = urlHash' \<and>
            pushed (step repo (PageChanged urlPage' urlHash') s) =
              pushed s @ [getUrl (project s) (version s) urlPage' urlHash' (hideUi s)]) \<and>
         (newHash \<noteq> hash s \<longrightarrow>
            page (step repo (HashChanged newHash) s) = page s \<and>
            hash (step repo (HashChanged newHash) s) = newHash \<and>
            pushed (step repo (HashChanged newHash) s) =
              pushed s @ [getUrl (project s) (version s) (page s) newHash (hideUi s)])"
  using viewer_run [OF assms, of repo] by (simp add: handler_fields)

theorem viewer_navigation_no_reload_witness:
  "rendered exampleState \<and>
   list_all viewerEvent [PageChanged ''guide/usage.html'' '''', HashChanged ''#install'',
     PageChanged ''index.html'' ''#top''] \<and>
   iFrameSrc (run exampleRepository
     [PageChanged ''guide/usage.html'' '''', HashChanged ''#install'',
      PageChanged ''index.html'' ''#top''] exampleState) = ''/doc/docat/1.2.0/index.html'' \<and>
   iFrameSrcComputations (run exampleRepository
     [PageChanged ''guide/usage.html'' '''', HashChanged ''#install'',
      PageChanged ''index.html'' ''#top''] exampleState) = 1 \<and>
   ''guide/usage.html'' \<noteq> page exampleState \<and>
   pushed (step exampleRepository (PageChanged ''guide/usage.html'' '''') exampleState) =
     [''#/docat/1.2.0/guide%2Fusage.html''] \<and>
   ''#install'' \<noteq> hash exampleState \<and>
   pushed (step exampleRepository (HashChanged ''#install'') exampleState) =
     [''#/docat/1.2.0/index.html#install'']"
proof -
  have a: "\<forall>e\<in>set [PageChanged ''guide/usage.html'' '''', HashChanged ''#install'',
               PageChanged ''index.html'' ''#top'']. viewerEvent e"
    by simp
  have b: "iFrameSrc exampleState = ''/doc/docat/1.2.0/index.html''"
    "iFrameSrcComputations exampleState = 1"
    "''guide/usage.html'' \<noteq> page exampleState" "''#install'' \<noteq> hash exampleState"
    "pushed exampleState @ [getUrl (project exampleState) (version exampleState)
        ''guide/usage.html'' '''' (hideUi exampleState)] = [''#/docat/1.2.0/guide%2Fusage.html'']"
    "pushed exampleState @ [getUrl (project exampleState) (version exampleState)
        (page exampleState) ''#install'' (hideUi exampleState)] = [''#/docat/1.2.0/index.html#install'']"
    by code_simp+
  show ?thesis
    using a b rendered_exampleState
      viewer_navigation_no_reload [where repo = exampleRepository and
          urlPage' = "''guide/usage.html''" and urlHash' = "''''" and newHash = "''#install''",
        OF rendered_exampleState a]
    by (simp del: step.simps run.simps)
qed

text \<open>
  C6. From a rendered state, selecting the current version changes nothing at all.
  Selecting another version stores it, pushes the address of the new version, and
  evaluates the memo exactly once more, from the new version.
\<close>

theorem version_selection:
  assumes "rendered s" and "s' = step repo (VersionSelected newVersion) s"
  shows "(newVersion = version s \<longrightarrow> s' = s) \<and>
         (newVersion \<noteq> version s \<longrightarrow>
            version s' = newVersion \<and>
            pushed s' = pushed s @ [getUrl (project s) newVersion (page s) (hash s) (hideUi s)] \<and>
            iFrameSrcComputations s' = Suc (iFrameSrcComputations s) \<and>
            iFrameSrc s' = getProjectDocsURL repo (project s) newVersion (page s) (hash s))"
proof -
  have "newVersion = version s \<Longrightarrow> s' = s"
    using assms by (simp add: onVersionChanged_def render_rendered)
  moreover have "version s' = newVersion" "project s' = project s" "page s' = page s"
    "hash s' = hash s"
    "pushed s' = (if newVersion = version s then pushed s
      else pushed s @ [getUrl (project s) newVersion (page s) (hash s) (hideUi s)])"
    unfolding assms(2) by (simp_all add: handler_fields)
  ultimately show ?thesis
    using step_memo [OF assms(1), of repo "VersionSelected newVersion"]
    unfolding assms(2) [symmetric] by auto
qed

theorem version_selection_witness:
  "rendered exampleState \<and>
   step exampleRepository (VersionSelected ''1.2.0'') exampleState = exampleState \<and>
   ''1.0.0'' \<noteq> version exampleState \<and>
   version (step exampleRepository (VersionSelected ''1.0.0'') exampleState) = ''1.0.0'' \<and>
   pushed (step exampleRepository (VersionSelected ''1.0.0'') exampleState) =
     [''#/docat/1.0.0/index.html''] \<and>
   iFrameSrcComputations (step exampleRepository (VersionSelected ''1.0.0'') exampleState) = 2 \<and>
   iFrameSrc (step exampleRepository (VersionSelected ''1.0.0'') exampleState) =
     ''/doc/docat/1.0.0/index.html''"
proof -
  have b: "''1.2.0'' = version exampleState" "''1.0.0'' \<noteq> version exampleState"
    "iFrameSrcComputations exampleState = 1"
    "pushed exampleState @ [getUrl (project exampleState) ''1.0.0'' (page exampleState)
        (hash exampleState) (hideUi exampleState)] = [''#/docat/1.0.0/index.html'']"
    "getProjectDocsURL exampleRepository (project exampleState) ''1.0.0'' (page exampleState)
        (hash exampleState) = ''/doc/docat/1.0.0/index.html''"
    by code_simp+
  show ?thesis
    using b rendered_exampleState
      version_selection [where repo = exampleRepository and newVersion = "''1.2.0''",
        OF rendered_exampleState refl]
      version_selection [where repo = exampleRepository and newVersion = "''1.0.0''",
        OF rendered_exampleState refl]
    by (simp del: step.simps)
qed

subsection \<open>The outdated-version banner\<close>

lemma step_banner_pre:
  "rendered s \<Longrightarrow> \<exists>t. step repo e s = render repo t \<and> bannerDeps t = (version s, versionsId s)
     \<and> bannerCalls t = bannerCalls s
     \<and> version t = version (step repo e s) \<and> versionsId t = versionsId (step repo e s)
     \<and> versions t = versions (step repo e s)"
  by (cases e) (auto simp add: handler_fields rendered_def)

lemma step_versionsId:
  "versions (step repo e s) \<noteq> versions s \<Longrightarrow> versionsId (step repo e s) \<noteq> versionsId s"
  by (cases e) (auto simp add: handler_fields versionsFetched_def Let_def split: sum.splits if_splits)

text \<open>
  C9. From a rendered state, after any event: when the version list is empty, no call is
  made on the banner. When it is not empty and the version or the list has changed, exactly
  one call is made: \<open>clearMessages\<close> if the version is the name of the latest version,
  and otherwise \<open>showMessage\<close> with the outdated-version warning and no expiry
  (\<open>showMs\<close> is \<open>null\<close>).
\<close>

theorem outdated_banner:
  assumes "rendered s" and "s' = step repo e s"
  shows "(versions s' = [] \<longrightarrow> bannerCalls s' = bannerCalls s) \<and>
         (versions s' \<noteq> [] \<and> (version s' \<noteq> version s \<or> versions s' \<noteq> versions s) \<longrightarrow>
            bannerCalls s' = bannerCalls s @
              [if version s' = name (getLatestVersion repo (versions s')) then ClearMessages
               else ShowMessage
                 \<lparr>content = ''You are viewing an outdated version of the documentation.'',
                  messageKind = Warning, showMs = None\<rparr>])"
proof -
  from step_banner_pre [OF assms(1), of repo e] obtain t where
    t: "s' = render repo t" "bannerDeps t = (version s, versionsId s)"
      "bannerCalls t = bannerCalls s" "version t = version s'" "versionsId t = versionsId s'"
      "versions t = versions s'"
    unfolding assms(2) [symmetric] by blast
  have id: "versions s' \<noteq> versions s \<Longrightarrow> versionsId s' \<noteq> versionsId s"
    unfolding assms(2) by (rule step_versionsId)
  have "bannerCalls s' =
     (if bannerDeps t = (version t, versionsId t) then bannerCalls t
      else if versions t = [] then bannerCalls t
      else if version t = name (getLatestVersion repo (versions t))
        then bannerCalls t @ [ClearMessages]
      else bannerCalls t @
        [ShowMessage \<lparr>content = ''You are viewing an outdated version of the documentation.'',
                      messageKind = Warning, showMs = None\<rparr>])"
    unfolding t(1) by (rule render_bannerCalls)
  then show ?thesis
    using id unfolding t(2-6) by auto
qed

theorem outdated_banner_witness:
  "rendered (mount exampleRepository exampleLocation) \<and>
   versions (step exampleRepository (LocationChanged pageLocation)
     (mount exampleRepository exampleLocation)) = [] \<and>
   bannerCalls (step exampleRepository (LocationChanged pageLocation)
     (mount exampleRepository exampleLocation)) = [] \<and>
   versions (step exampleRepository (VersionsFetched ''latest'' (Inr exampleVersions))
     (mount exampleRepository exampleLocation)) \<noteq> [] \<and>
   bannerCalls (step exampleRepository (VersionsFetched ''latest'' (Inr exampleVersions))
     (mount exampleRepository exampleLocation)) = [ClearMessages] \<and>
   rendered exampleState \<and>
   bannerCalls (step exampleRepository (VersionSelected ''1.0.0'') exampleState) =
     [ClearMessages,
      ShowMessage \<lparr>content = ''You are viewing an outdated version of the documentation.'',
                    messageKind = Warning, showMs = None\<rparr>]"
proof -
  have a: "versions (step exampleRepository (LocationChanged pageLocation)
      (mount exampleRepository exampleLocation)) = []"
    "bannerCalls (mount exampleRepository exampleLocation) = []"
    by code_simp+
  have b: "versions (step exampleRepository (VersionsFetched ''latest'' (Inr exampleVersions))
      (mount exampleRepository exampleLocation)) =
      [\<lparr>name = ''1.0.0'', tags = []\<rparr>, \<lparr>name = ''1.1.0'', tags = []\<rparr>,
       \<lparr>name = ''1.2.0'', tags = [''stable'']\<rparr>]"
    "version (step exampleRepository (VersionsFetched ''latest'' (Inr exampleVersions))
      (mount exampleRepository exampleLocation)) = ''1.2.0''"
    "version (mount exampleRepository exampleLocation) = ''latest''"
    "name (getLatestVersion exampleRepository
       [\<lparr>name = ''1.0.0'', tags = []\<rparr>, \<lparr>name = ''1.1.0'', tags = []\<rparr>,
        \<lparr>name = ''1.2.0'', tags = [''stable'']\<rparr>]) = ''1.2.0''"
    by code_simp+
  have c: "versions (step exampleRepository (VersionSelected ''1.0.0'') exampleState) =
      [\<lparr>name = ''1.0.0'', tags = []\<rparr>, \<lparr>name = ''1.1.0'', tags = []\<rparr>,
       \<lparr>name = ''1.2.0'', tags = [''stable'']\<rparr>]"
    "version (step exampleRepository (VersionSelected ''1.0.0'') exampleState) = ''1.0.0''"
    "version exampleState = ''1.2.0''" "bannerCalls exampleState = [ClearMessages]"
    by code_simp+
  show ?thesis
    using a b c rendered_exampleState rendered_mount [of exampleRepository exampleLocation]
      outdated_banner [where repo = exampleRepository and e = "LocationChanged pageLocation",
        OF rendered_mount [of exampleRepository exampleLocation] refl]
      outdated_banner [where repo = exampleRepository and
          e = "VersionsFetched ''latest'' (Inr exampleVersions)",
        OF rendered_mount [of exampleRepository exampleLocation] refl]
      outdated_banner [where repo = exampleRepository and e = "VersionSelected ''1.0.0''",
        OF rendered_exampleState refl]
    by (simp del: step.simps)
qed

subsection \<open>Changing the version after the resolution\<close>

text \<open>
  C10. Whatever the version list holds, a version other than the current one is stored
  when it is selected and when the address changes to it; selecting it pushes its
  address (for an address change the new address is the one that was changed to, nothing
  is pushed), and \<open>loadingFailed\<close> is left as it was on both paths.
\<close>

theorem version_change_unchecked:
  assumes "newVersion \<noteq> version s"
  shows "version (step repo (VersionSelected newVersion) s) = newVersion \<and>
         pushed (step repo (VersionSelected newVersion) s) =
           pushed s @ [getUrl (project s) newVersion (page s) (hash s) (hideUi s)] \<and>
         loadingFailed (step repo (VersionSelected newVersion) s) = loadingFailed s \<and>
         versions (step repo (VersionSelected newVersion) s) = versions s \<and>
         (urlVersion loc = newVersion \<longrightarrow>
            version (step repo (LocationChanged loc) s) = newVersion \<and>
            loadingFailed (step repo (LocationChanged loc) s) = loadingFailed s)"
  using assms by (simp add: handler_fields)

theorem version_change_unchecked_witness:
  "''0.0.7'' \<noteq> version exampleState \<and>
   ''0.0.7'' \<notin> set (concat (map (\<lambda>v. name v # tags v) (versions exampleState))) \<and>
   version (step exampleRepository (VersionSelected ''0.0.7'') exampleState) = ''0.0.7'' \<and>
   pushed (step exampleRepository (VersionSelected ''0.0.7'') exampleState) =
     [''#/docat/0.0.7/index.html''] \<and>
   \<not> loadingFailed (step exampleRepository (VersionSelected ''0.0.7'') exampleState) \<and>
   urlVersion unknownVersionLocation \<noteq> version exampleState \<and>
   version (step exampleRepository (LocationChanged unknownVersionLocation) exampleState) =
     ''9.9.9'' \<and>
   \<not> loadingFailed (step exampleRepository (LocationChanged unknownVersionLocation) exampleState)"
proof -
  have a: "''0.0.7'' \<noteq> version exampleState" "urlVersion unknownVersionLocation \<noteq> version exampleState"
    by code_simp+
  have b: "''0.0.7'' \<notin> set (concat (map (\<lambda>v. name v # tags v) (versions exampleState)))"
    "pushed exampleState @ [getUrl (project exampleState) ''0.0.7'' (page exampleState)
        (hash exampleState) (hideUi exampleState)] = [''#/docat/0.0.7/index.html'']"
    "\<not> loadingFailed exampleState" "urlVersion unknownVersionLocation = ''9.9.9''"
    by code_simp+
  show ?thesis
    using a b
      version_change_unchecked [where repo = exampleRepository and loc = unknownVersionLocation,
        OF a(1)]
      version_change_unchecked [where repo = exampleRepository and loc = unknownVersionLocation,
        OF a(2)]
    by (simp del: step.simps)
qed

end
